theory Spec2Isabelle
  imports Main
begin

section \<open>Values handed back to the automation host\<close>

text \<open>
  The module hands JSON-like Python values to Ansible: \<open>None\<close>, booleans, integers,
  strings, lists and dictionaries. A dictionary literal is kept as an association list in
  the order the source writes its keys; \<open>dict_get\<close> is the lookup.
\<close>

datatype pyval =
    PNone
  | PBool bool
  | PInt int
  | PStr string
  | PList "pyval list"
  | PDict "(string \<times> pyval) list"

fun dict_get :: "pyval \<Rightarrow> string \<Rightarrow> pyval option" where
  "dict_get (PDict kvs) k = map_of kvs k"
| "dict_get _ k = None"

fun dict_keys :: "pyval \<Rightarrow> string list" where
  "dict_keys (PDict kvs) = map fst kvs"
| "dict_keys _ = []"

subsection \<open>\<open>to_native\<close>\<close>

text \<open>
  \<open>ansible.module_utils._text.to_native\<close> returns a text string unchanged and turns any
  other object into \<open>str(obj)\<close>. The module applies it to strings (names, addresses,
  the status) and to one integer, the server id, whose \<open>str\<close> is its decimal numeral.
\<close>

fun decimal :: "nat \<Rightarrow> string" where
  "decimal n =
     (if n < 10 then [''0123456789'' ! n]
      else decimal (n div 10) @ [''0123456789'' ! (n mod 10)])"

declare decimal.simps [simp del]

definition to_native_int :: "int \<Rightarrow> string" where
  "to_native_int i = (if i < 0 then CHR ''-'' # decimal (nat (- i)) else decimal (nat i))"

definition to_native_str :: "string \<Rightarrow> string" where
  "to_native_str s = s"

section \<open>Server objects of the cloud SDK\<close>

text \<open>
  The objects come from the external \<open>hcloud\<close> client. Each record has the attributes
  that \<open>_prepare_result\<close> reads. The records of this section are the complete server
  objects: an attribute is optional exactly where the source tests it against \<open>None\<close>
  before dereferencing it (image, placement group, public IPv4 and IPv6, backup window);
  server type, datacenter, location, public net, the network of a private attachment and
  the two \<open>protection\<close> flags, which the source dereferences unguarded, are there. The
  objects as Python has them, where each of these may be absent and the source then raises,
  are modelled further down, with the embedding of the complete objects into them.
\<close>

record image =
  image_name :: string

record placement_group =
  placement_group_name :: string

record ipv4_address =
  ipv4_ip :: string

record ipv6_network =
  ipv6_ip :: string

record public_net =
  ipv4 :: "ipv4_address option"
  ipv6 :: "ipv6_network option"

record network =
  network_name :: string

record private_net =
  net_network :: network
  net_ip :: string

record server_type =
  server_type_name :: string

record location =
  location_name :: string

record datacenter =
  datacenter_name :: string
  datacenter_location :: location

record protection =
  protection_delete :: bool
  protection_rebuild :: bool

record server =
  server_id :: int
  server_name :: string
  server_status :: string
  server_public_net :: public_net
  server_private_net :: "private_net list"
  server_image :: "image option"
  server_server_type :: server_type
  server_datacenter :: datacenter
  server_placement_group :: "placement_group option"
  server_rescue_enabled :: bool
  server_backup_window :: "string option"
  server_labels :: "(string \<times> string) list"
  server_protection :: protection

definition labels_value :: "(string \<times> string) list \<Rightarrow> pyval" where
  "labels_value ls = PDict (map (\<lambda>(k, v). (k, PStr v)) ls)"

section \<open>The module object\<close>

text \<open>
  Exceptions of the API call. \<open>hcloud.APIException\<close> carries a \<open>code\<close> and a
  \<open>message\<close> attribute. Any other exception a call can raise (a connection error of the
  HTTP library, for one) is an \<open>Exception\<close> with its arguments only: under Python 3 it
  has no attribute \<open>message\<close>, and reading it raises \<open>AttributeError\<close>.
\<close>

datatype exn =
    APIException string string
  | OtherException string

datatype py_error = AttributeError | TypeError | KeyError

fun exn_message :: "exn \<Rightarrow> py_error + string" where
  "exn_message (APIException code message) = Inr message"
| "exn_message (OtherException args) = Inl AttributeError"

text \<open>
  How a run can end early: \<open>module.fail_json(msg=...)\<close> reports a failure with a message
  and exits; an exception nobody catches ends the process with a traceback.
\<close>

datatype failure = FailJson string | Uncaught py_error

text \<open>
  The client is the external collaborator: its three read-only lookups are parameters of
  the model. \<open>get_by_id\<close> and \<open>get_by_name\<close> return one server or \<open>None\<close>,
  \<open>get_all\<close> a list of servers, with or without a label selector; each may raise.
\<close>

record servers_client =
  get_by_id :: "int \<Rightarrow> exn + server option"
  get_by_name :: "string \<Rightarrow> exn + server option"
  get_all :: "string option \<Rightarrow> exn + server list"

text \<open>The calls issued to the API, in order.\<close>

datatype api_call = GetById int | GetByName string | GetAll "string option"

record module_params =
  param_id :: "int option"
  param_name :: "string option"
  param_label_selector :: "string option"

text \<open>
  \<open>AnsibleHcloudServerInfo\<close>: the module's parameters, the client, the attribute
  \<open>hcloud_server_info\<close> (\<open>None\<close> after \<open>__init__\<close>) and the log of API calls made so far.
\<close>

record AnsibleHcloudServerInfo =
  params :: module_params
  client :: servers_client
  hcloud_server_info :: "server option list option"
  api_calls :: "api_call list"

definition init :: "module_params \<Rightarrow> servers_client \<Rightarrow> AnsibleHcloudServerInfo" where
  "init p c = \<lparr>params = p, client = c, hcloud_server_info = None, api_calls = []\<rparr>"

subsection \<open>\<open>_prepare_result\<close>\<close>

text \<open>The dictionary appended for one server (the body of the loop).\<close>

definition prepare_server :: "server \<Rightarrow> (string \<times> pyval) list" where
  "prepare_server server =
     (let image = (case server_image server of
                     None \<Rightarrow> PNone
                   | Some im \<Rightarrow> PStr (to_native_str (image_name im)));
          placement_group = (case server_placement_group server of
                     None \<Rightarrow> PNone
                   | Some pg \<Rightarrow> PStr (to_native_str (placement_group_name pg)));
          ipv4_address = (case ipv4 (server_public_net server) of
                     None \<Rightarrow> PNone
                   | Some a \<Rightarrow> PStr (to_native_str (ipv4_ip a)));
          ipv6 = (case ipv6 (server_public_net server) of
                     None \<Rightarrow> PNone
                   | Some a \<Rightarrow> PStr (to_native_str (ipv6_ip a)));
          backup_window = (case server_backup_window server of
                     None \<Rightarrow> PNone
                   | Some w \<Rightarrow> PStr (to_native_str w))
      in [(''id'', PStr (to_native_int (server_id server))),
          (''name'', PStr (to_native_str (server_name server))),
          (''ipv4_address'', ipv4_address),
          (''ipv6'', ipv6),
          (''private_networks'',
             PList (map (\<lambda>net. PStr (to_native_str (network_name (net_network net))))
                        (server_private_net server))),
          (''private_networks_info'',
             PList (map (\<lambda>net. PDict [(''name'', PStr (to_native_str (network_name (net_network net)))),
                                       (''ip'', PStr (net_ip net))])
                        (server_private_net server))),
          (''image'', image),
          (''server_type'', PStr (to_native_str (server_type_name (server_server_type server)))),
          (''datacenter'', PStr (to_native_str (datacenter_name (server_datacenter server)))),
          (''location'',
             PStr (to_native_str (location_name (datacenter_location (server_datacenter server))))),
          (''placement_group'', placement_group),
          (''rescue_enabled'', PBool (server_rescue_enabled server)),
          (''backup_window'', backup_window),
          (''labels'', labels_value (server_labels server)),
          (''status'', PStr (to_native_str (server_status server))),
          (''delete_protection'', PBool (protection_delete (server_protection server))),
          (''rebuild_protection'', PBool (protection_rebuild (server_protection server)))])"

text \<open>The loop over \<open>self.hcloud_server_info\<close>, with the accumulator \<open>tmp\<close>.\<close>

fun prepare_loop :: "pyval list \<Rightarrow> server option list \<Rightarrow> pyval list" where
  "prepare_loop tmp [] = tmp"
| "prepare_loop tmp (None # rest) = prepare_loop tmp rest"
| "prepare_loop tmp (Some server # rest) =
     prepare_loop (tmp @ [PDict (prepare_server server)]) rest"

text \<open>Iterating over the attribute while it is still \<open>None\<close> raises \<open>TypeError\<close>.\<close>

definition prepare_result :: "AnsibleHcloudServerInfo \<Rightarrow> py_error + pyval list" where
  "prepare_result self =
     (case hcloud_server_info self of
        None \<Rightarrow> Inl TypeError
      | Some servers \<Rightarrow> Inr (prepare_loop [] servers))"

subsection \<open>\<open>get_servers\<close>\<close>

text \<open>
  The handler \<open>except Exception as e: self.module.fail_json(msg=e.message)\<close>: the
  attribute is read first; when that raises, the new exception leaves the handler.
\<close>

definition handle_exception :: "exn \<Rightarrow> failure" where
  "handle_exception e =
     (case exn_message e of
        Inl err \<Rightarrow> Uncaught err
      | Inr msg \<Rightarrow> FailJson msg)"

definition record_call :: "api_call \<Rightarrow> AnsibleHcloudServerInfo \<Rightarrow> AnsibleHcloudServerInfo" where
  "record_call c self = self\<lparr>api_calls := api_calls self @ [c]\<rparr>"

text \<open>
  The result is the pair of how the method ended (\<open>Inr ()\<close> when it returned) and the
  object afterwards.
\<close>

definition get_servers ::
  "AnsibleHcloudServerInfo \<Rightarrow> (failure + unit) \<times> AnsibleHcloudServerInfo" where
  "get_servers self =
     (case param_id (params self) of
        Some i \<Rightarrow>
          (case get_by_id (client self) i of
             Inl e \<Rightarrow> (Inl (handle_exception e), record_call (GetById i) self)
           | Inr found \<Rightarrow>
               (Inr (), (record_call (GetById i) self)\<lparr>hcloud_server_info := Some [found]\<rparr>))
      | None \<Rightarrow>
     (case param_name (params self) of
        Some n \<Rightarrow>
          (case get_by_name (client self) n of
             Inl e \<Rightarrow> (Inl (handle_exception e), record_call (GetByName n) self)
           | Inr found \<Rightarrow>
               (Inr (), (record_call (GetByName n) self)\<lparr>hcloud_server_info := Some [found]\<rparr>))
      | None \<Rightarrow>
     (case param_label_selector (params self) of
        Some sel \<Rightarrow>
          (case get_all (client self) (Some sel) of
             Inl e \<Rightarrow> (Inl (handle_exception e), record_call (GetAll (Some sel)) self)
           | Inr found \<Rightarrow>
               (Inr (), (record_call (GetAll (Some sel)) self)
                          \<lparr>hcloud_server_info := Some (map Some found)\<rparr>))
      | None \<Rightarrow>
          (case get_all (client self) None of
             Inl e \<Rightarrow> (Inl (handle_exception e), record_call (GetAll None) self)
           | Inr found \<Rightarrow>
               (Inr (), (record_call (GetAll None) self)
                          \<lparr>hcloud_server_info := Some (map Some found)\<rparr>)))))"

subsection \<open>\<open>get_result\<close> and \<open>main\<close>\<close>

text \<open>
  Modelled from the spec: \<open>get_result\<close> of the base class \<open>Hcloud\<close> (module_utils, not
  among the sources). The spec has the module ``reshape each returned server object's
  fields into a plain mapping, and hand the list back'': the result mapping holds, under
  the key \<open>hcloud_server_info\<close>, the list that \<open>_prepare_result\<close> builds.
\<close>

definition get_result :: "AnsibleHcloudServerInfo \<Rightarrow> py_error + (string \<times> pyval) list" where
  "get_result self =
     (case prepare_result self of
        Inl err \<Rightarrow> Inl err
      | Inr recs \<Rightarrow> Inr [(''hcloud_server_info'', PList recs)])"

text \<open>A notice of \<open>module.deprecate(msg, version=..., collection_name=...)\<close>.\<close>

record deprecation =
  deprecation_msg :: string
  deprecation_version :: string
  deprecation_collection_name :: string

definition facts_deprecation :: deprecation where
  "facts_deprecation =
     \<lparr>deprecation_msg =
        ''The 'hcloud_server_facts' module has been renamed to 'hcloud_server_info', '' @
        ''and the renamed one no longer returns ansible_facts'',
      deprecation_version = ''2.0.0'',
      deprecation_collection_name = ''hetzner.hcloud''\<rparr>"

text \<open>
  A run ends with \<open>exit_json\<close> and its keyword arguments, or with a failure. \<open>main\<close>
  takes the name the module was invoked under (\<open>module._name\<close>), the parsed parameters and
  the client; it returns the deprecation notices emitted and how the run ended.
\<close>

datatype outcome = ExitJson "(string \<times> pyval) list" | Failed failure

definition main :: "string \<Rightarrow> module_params \<Rightarrow> servers_client \<Rightarrow> deprecation list \<times> outcome" where
  "main module_name p c =
     (let is_old_facts = (module_name = ''hcloud_server_facts'');
          deprecations = (if is_old_facts then [facts_deprecation] else []);
          hcloud = init p c
      in case get_servers hcloud of
           (Inl f, _) \<Rightarrow> (deprecations, Failed f)
         | (Inr _, hcloud') \<Rightarrow>
             (case get_result hcloud' of
                Inl err \<Rightarrow> (deprecations, Failed (Uncaught err))
              | Inr result \<Rightarrow>
                  (case map_of result ''hcloud_server_info'' of
                     None \<Rightarrow> (deprecations, Failed (Uncaught KeyError))
                   | Some info \<Rightarrow>
                       if is_old_facts
                       then (deprecations,
                             ExitJson [(''ansible_facts'', PDict [(''hcloud_server_facts'', info)])])
                       else (deprecations, ExitJson [(''hcloud_server_info'', info)]))))"

section \<open>Server objects as Python has them\<close>

text \<open>
  In Python any attribute of an SDK object can be \<open>None\<close>. The \<open>sdk_\<close> records keep
  that: the nested objects and the values \<open>to_native\<close> is applied to are optional, the
  list of private attachments and the \<open>protection\<close> dictionary may be missing, and the
  dictionary may lack a key. The network of a private attachment is a partial object that
  holds its id only; reading its \<open>name\<close> makes the SDK fetch the network from the API,
  which either yields the name or raises.
\<close>

record sdk_image =
  sdk_image_name :: "string option"

record sdk_placement_group =
  sdk_placement_group_name :: "string option"

record sdk_ipv4_address =
  sdk_ipv4_ip :: "string option"

record sdk_ipv6_network =
  sdk_ipv6_ip :: "string option"

record sdk_public_net =
  sdk_ipv4 :: "sdk_ipv4_address option"
  sdk_ipv6 :: "sdk_ipv6_network option"

record sdk_network =
  sdk_network_name :: "exn + string option"

record sdk_private_net =
  sdk_net_network :: "sdk_network option"
  sdk_net_ip :: "string option"

record sdk_server_type =
  sdk_server_type_name :: "string option"

record sdk_location =
  sdk_location_name :: "string option"

record sdk_datacenter =
  sdk_datacenter_name :: "string option"
  sdk_datacenter_location :: "sdk_location option"

record sdk_server =
  sdk_server_id :: "int option"
  sdk_server_name :: "string option"
  sdk_server_status :: "string option"
  sdk_server_public_net :: "sdk_public_net option"
  sdk_server_private_net :: "sdk_private_net list option"
  sdk_server_image :: "sdk_image option"
  sdk_server_server_type :: "sdk_server_type option"
  sdk_server_datacenter :: "sdk_datacenter option"
  sdk_server_placement_group :: "sdk_placement_group option"
  sdk_server_rescue_enabled :: bool
  sdk_server_backup_window :: "string option"
  sdk_server_labels :: "(string \<times> string) list"
  sdk_server_protection :: "(string \<times> bool) list option"

text \<open>
  What preparing a record can raise: a Python error of the attribute or item access, or an
  exception of the API from a lazy fetch. Nothing in \<open>_prepare_result\<close> catches either.
\<close>

datatype raised = PyError py_error | ApiError exn

text \<open>
  \<open>and_then\<close> sequences two steps, the second skipped when the first raises.
  \<open>attribute_of\<close> is \<open>obj.attr\<close> on an \<open>obj\<close> that may be \<open>None\<close>
  (\<open>AttributeError\<close>), \<open>iterate\<close> is \<open>for x in xs\<close> (\<open>TypeError\<close> on
  \<open>None\<close>), \<open>subscript\<close> is \<open>d[k]\<close> (\<open>TypeError\<close> on \<open>None\<close>,
  \<open>KeyError\<close> on a missing key).
\<close>

definition and_then :: "raised + 'a \<Rightarrow> ('a \<Rightarrow> raised + 'b) \<Rightarrow> raised + 'b" where
  "and_then r f = (case r of Inl e \<Rightarrow> Inl e | Inr v \<Rightarrow> f v)"

definition attribute_of :: "'a option \<Rightarrow> raised + 'a" where
  "attribute_of obj = (case obj of None \<Rightarrow> Inl (PyError AttributeError) | Some v \<Rightarrow> Inr v)"

definition iterate :: "'a list option \<Rightarrow> raised + 'a list" where
  "iterate xs = (case xs of None \<Rightarrow> Inl (PyError TypeError) | Some l \<Rightarrow> Inr l)"

definition subscript :: "(string \<times> 'a) list option \<Rightarrow> string \<Rightarrow> raised + 'a" where
  "subscript d k =
     (case d of
        None \<Rightarrow> Inl (PyError TypeError)
      | Some kvs \<Rightarrow> (case map_of kvs k of None \<Rightarrow> Inl (PyError KeyError) | Some v \<Rightarrow> Inr v))"

definition lazy_name :: "sdk_network \<Rightarrow> raised + string option" where
  "lazy_name nw = (case sdk_network_name nw of Inl e \<Rightarrow> Inl (ApiError e) | Inr n \<Rightarrow> Inr n)"

text \<open>\<open>to_native(None)\<close> is the string \<open>None\<close>.\<close>

definition to_native_opt :: "string option \<Rightarrow> string" where
  "to_native_opt v = (case v of None \<Rightarrow> ''None'' | Some s \<Rightarrow> to_native_str s)"

definition to_native_opt_int :: "int option \<Rightarrow> string" where
  "to_native_opt_int v = (case v of None \<Rightarrow> ''None'' | Some i \<Rightarrow> to_native_int i)"

text \<open>A value handed on as it is (\<open>net.ip\<close>).\<close>

definition passed_on :: "string option \<Rightarrow> pyval" where
  "passed_on v = (case v of None \<Rightarrow> PNone | Some s \<Rightarrow> PStr s)"

text \<open>The two list comprehensions over \<open>server.private_net\<close>.\<close>

fun private_networks :: "sdk_private_net list \<Rightarrow> raised + pyval list" where
  "private_networks [] = Inr []"
| "private_networks (net # rest) =
     and_then (attribute_of (sdk_net_network net)) (\<lambda>nw.
     and_then (lazy_name nw) (\<lambda>n.
     and_then (private_networks rest) (\<lambda>names.
       Inr (PStr (to_native_opt n) # names))))"

fun private_networks_info :: "sdk_private_net list \<Rightarrow> raised + pyval list" where
  "private_networks_info [] = Inr []"
| "private_networks_info (net # rest) =
     and_then (attribute_of (sdk_net_network net)) (\<lambda>nw.
     and_then (lazy_name nw) (\<lambda>n.
     and_then (private_networks_info rest) (\<lambda>infos.
       Inr (PDict [(''name'', PStr (to_native_opt n)), (''ip'', passed_on (sdk_net_ip net))]
            # infos))))"

text \<open>
  The body of the loop of \<open>_prepare_result\<close> on such an object, in the source's order of
  evaluation: the five guarded assignments (of which only \<open>server.public_net.ipv4\<close> can
  raise), then the items of the dictionary literal from top to bottom.
\<close>

definition prepare_sdk_server :: "sdk_server \<Rightarrow> raised + (string \<times> pyval) list" where
  "prepare_sdk_server server =
     (let image = (case sdk_server_image server of
                     None \<Rightarrow> PNone
                   | Some im \<Rightarrow> PStr (to_native_opt (sdk_image_name im)));
          placement_group = (case sdk_server_placement_group server of
                     None \<Rightarrow> PNone
                   | Some pg \<Rightarrow> PStr (to_native_opt (sdk_placement_group_name pg)))
      in
      and_then (attribute_of (sdk_server_public_net server)) (\<lambda>public_net.
      let ipv4_address = (case sdk_ipv4 public_net of
                     None \<Rightarrow> PNone
                   | Some a \<Rightarrow> PStr (to_native_opt (sdk_ipv4_ip a)));
          ipv6 = (case sdk_ipv6 public_net of
                     None \<Rightarrow> PNone
                   | Some a \<Rightarrow> PStr (to_native_opt (sdk_ipv6_ip a)));
          backup_window = (case sdk_server_backup_window server of
                     None \<Rightarrow> PNone
                   | Some w \<Rightarrow> PStr (to_native_str w))
      in
      and_then (iterate (sdk_server_private_net server)) (\<lambda>private_net.
      and_then (private_networks private_net) (\<lambda>names.
      and_then (private_networks_info private_net) (\<lambda>infos.
      and_then (attribute_of (sdk_server_server_type server)) (\<lambda>server_type.
      and_then (attribute_of (sdk_server_datacenter server)) (\<lambda>datacenter.
      and_then (attribute_of (sdk_datacenter_location datacenter)) (\<lambda>location.
      and_then (subscript (sdk_server_protection server) ''delete'') (\<lambda>delete.
      and_then (subscript (sdk_server_protection server) ''rebuild'') (\<lambda>rebuild.
        Inr [(''id'', PStr (to_native_opt_int (sdk_server_id server))),
             (''name'', PStr (to_native_opt (sdk_server_name server))),
             (''ipv4_address'', ipv4_address),
             (''ipv6'', ipv6),
             (''private_networks'', PList names),
             (''private_networks_info'', PList infos),
             (''image'', image),
             (''server_type'', PStr (to_native_opt (sdk_server_type_name server_type))),
             (''datacenter'', PStr (to_native_opt (sdk_datacenter_name datacenter))),
             (''location'', PStr (to_native_opt (sdk_location_name location))),
             (''placement_group'', placement_group),
             (''rescue_enabled'', PBool (sdk_server_rescue_enabled server)),
             (''backup_window'', backup_window),
             (''labels'', labels_value (sdk_server_labels server)),
             (''status'', PStr (to_native_opt (sdk_server_status server))),
             (''delete_protection'', PBool delete),
             (''rebuild_protection'', PBool rebuild)]))))))))))"

fun prepare_sdk_loop :: "pyval list \<Rightarrow> sdk_server option list \<Rightarrow> raised + pyval list" where
  "prepare_sdk_loop tmp [] = Inr tmp"
| "prepare_sdk_loop tmp (None # rest) = prepare_sdk_loop tmp rest"
| "prepare_sdk_loop tmp (Some server # rest) =
     and_then (prepare_sdk_server server) (\<lambda>d. prepare_sdk_loop (tmp @ [PDict d]) rest)"

definition prepare_sdk_result :: "sdk_server option list option \<Rightarrow> raised + pyval list" where
  "prepare_sdk_result info =
     and_then (iterate info) (\<lambda>servers. prepare_sdk_loop [] servers)"

text \<open>
  A server object is complete when everything the source dereferences unguarded is there:
  the public net, the list of private attachments with each network and its name loading,
  the server type, the datacenter and its location, and a \<open>protection\<close> dictionary with
  the keys \<open>delete\<close> and \<open>rebuild\<close>.
\<close>

definition net_complete :: "sdk_private_net \<Rightarrow> bool" where
  "net_complete net =
     (case sdk_net_network net of
        None \<Rightarrow> False
      | Some nw \<Rightarrow> (case sdk_network_name nw of Inl e \<Rightarrow> False | Inr n \<Rightarrow> True))"

definition complete :: "sdk_server \<Rightarrow> bool" where
  "complete s =
     (sdk_server_public_net s \<noteq> None \<and>
      (case sdk_server_private_net s of None \<Rightarrow> False | Some nets \<Rightarrow> list_all net_complete nets) \<and>
      sdk_server_server_type s \<noteq> None \<and>
      (case sdk_server_datacenter s of
         None \<Rightarrow> False
       | Some dc \<Rightarrow> sdk_datacenter_location dc \<noteq> None) \<and>
      (case sdk_server_protection s of
         None \<Rightarrow> False
       | Some d \<Rightarrow> map_of d ''delete'' \<noteq> None \<and> map_of d ''rebuild'' \<noteq> None))"

text \<open>The complete server objects of the first model, as objects of this one.\<close>

definition of_private_net :: "private_net \<Rightarrow> sdk_private_net" where
  "of_private_net net =
     \<lparr>sdk_net_network = Some \<lparr>sdk_network_name = Inr (Some (network_name (net_network net)))\<rparr>,
      sdk_net_ip = Some (net_ip net)\<rparr>"

definition of_server :: "server \<Rightarrow> sdk_server" where
  "of_server s =
     \<lparr>sdk_server_id = Some (server_id s),
      sdk_server_name = Some (server_name s),
      sdk_server_status = Some (server_status s),
      sdk_server_public_net =
        Some \<lparr>sdk_ipv4 = map_option (\<lambda>a. \<lparr>sdk_ipv4_ip = Some (ipv4_ip a)\<rparr>)
                                     (ipv4 (server_public_net s)),
              sdk_ipv6 = map_option (\<lambda>a. \<lparr>sdk_ipv6_ip = Some (ipv6_ip a)\<rparr>)
                                     (ipv6 (server_public_net s))\<rparr>,
      sdk_server_private_net = Some (map of_private_net (server_private_net s)),
      sdk_server_image =
        map_option (\<lambda>im. \<lparr>sdk_image_name = Some (image_name im)\<rparr>) (server_image s),
      sdk_server_server_type =
        Some \<lparr>sdk_server_type_name = Some (server_type_name (server_server_type s))\<rparr>,
      sdk_server_datacenter =
        Some \<lparr>sdk_datacenter_name = Some (datacenter_name (server_datacenter s)),
              sdk_datacenter_location =
                Some \<lparr>sdk_location_name =
                        Some (location_name (datacenter_location (server_datacenter s)))\<rparr>\<rparr>,
      sdk_server_placement_group =
        map_option (\<lambda>pg. \<lparr>sdk_placement_group_name = Some (placement_group_name pg)\<rparr>)
                   (server_placement_group s),
      sdk_server_rescue_enabled = server_rescue_enabled s,
      sdk_server_backup_window = server_backup_window s,
      sdk_server_labels = server_labels s,
      sdk_server_protection =
        Some [(''delete'', protection_delete (server_protection s)),
              (''rebuild'', protection_rebuild (server_protection s))]\<rparr>"

section \<open>The specification's vocabulary\<close>

text \<open>The keys a record has according to the specification, in the order it lists them.\<close>

definition record_keys :: "string list" where
  "record_keys =
     [''id'', ''name'', ''status'', ''server_type'', ''ipv4_address'', ''ipv6'',
      ''private_networks'', ''private_networks_info'', ''image'', ''datacenter'',
      ''location'', ''placement_group'', ''rescue_enabled'', ''backup_window'', ''labels'',
      ''delete_protection'', ''rebuild_protection'']"

text \<open>
  The lookup the specification selects: by id if \<open>id\<close> is set, otherwise by name if
  \<open>name\<close> is set, otherwise all servers filtered by \<open>label_selector\<close> if that is set,
  otherwise all servers.
\<close>

definition lookup_by_precedence :: "module_params \<Rightarrow> api_call" where
  "lookup_by_precedence p =
     (case param_id p of
        Some i \<Rightarrow> GetById i
      | None \<Rightarrow>
          (case param_name p of
             Some n \<Rightarrow> GetByName n
           | None \<Rightarrow>
               (case param_label_selector p of
                  Some sel \<Rightarrow> GetAll (Some sel)
                | None \<Rightarrow> GetAll None)))"

text \<open>
  What the client answers to a call, as the list of entries \<open>get_servers\<close> stores for it:
  the one result of a lookup by id or by name, or every server of a listing.
\<close>

fun respond :: "servers_client \<Rightarrow> api_call \<Rightarrow> exn + server option list" where
  "respond c (GetById i) = map_sum (\<lambda>e. e) (\<lambda>found. [found]) (get_by_id c i)"
| "respond c (GetByName n) = map_sum (\<lambda>e. e) (\<lambda>found. [found]) (get_by_name c n)"
| "respond c (GetAll sel) = map_sum (\<lambda>e. e) (map Some) (get_all c sel)"

section \<open>Concrete inputs\<close>

definition fsn1_dc14 :: datacenter where
  "fsn1_dc14 = \<lparr>datacenter_name = ''fsn1-dc14'',
                datacenter_location = \<lparr>location_name = ''fsn1''\<rparr>\<rparr>"

text \<open>A server with no image, placement group, public address or backup window.\<close>

definition bare_server :: server where
  "bare_server =
     \<lparr>server_id = 42, server_name = ''bare'', server_status = ''off'',
      server_public_net = \<lparr>ipv4 = None, ipv6 = None\<rparr>,
      server_private_net = [],
      server_image = None,
      server_server_type = \<lparr>server_type_name = ''cx11''\<rparr>,
      server_datacenter = fsn1_dc14,
      server_placement_group = None,
      server_rescue_enabled = False,
      server_backup_window = None,
      server_labels = [],
      server_protection = \<lparr>protection_delete = False, protection_rebuild = False\<rparr>\<rparr>"

text \<open>The server of the module's documented samples, on two private networks.\<close>

definition my_server :: server where
  "my_server =
     \<lparr>server_id = 1937415, server_name = ''my-server'', server_status = ''running'',
      server_public_net = \<lparr>ipv4 = Some \<lparr>ipv4_ip = ''116.203.104.109''\<rparr>,
                           ipv6 = Some \<lparr>ipv6_ip = ''2a01:4f8:1c1c:c140::/64''\<rparr>\<rparr>,
      server_private_net =
        [\<lparr>net_network = \<lparr>network_name = ''my-network''\<rparr>, net_ip = ''192.168.1.1''\<rparr>,
         \<lparr>net_network = \<lparr>network_name = ''another-network''\<rparr>, net_ip = ''10.185.50.40''\<rparr>],
      server_image = Some \<lparr>image_name = ''ubuntu-20.04''\<rparr>,
      server_server_type = \<lparr>server_type_name = ''cx11''\<rparr>,
      server_datacenter = fsn1_dc14,
      server_placement_group = Some \<lparr>placement_group_name = ''4711''\<rparr>,
      server_rescue_enabled = False,
      server_backup_window = Some ''22-02'',
      server_labels = [(''env'', ''prod'')],
      server_protection = \<lparr>protection_delete = True, protection_rebuild = True\<rparr>\<rparr>"

definition inventory :: "server list" where
  "inventory = [my_server, bare_server]"

text \<open>
  A selector language for the sample client: the selector is a key, and a server
  matches when it carries a label with that key.
\<close>

definition has_label :: "string \<Rightarrow> (string \<times> string) list \<Rightarrow> bool" where
  "has_label sel ls = (map_of ls sel \<noteq> None)"

text \<open>
  A client answering from \<open>inventory\<close>: by id (an API error when there is none), by
  name (\<open>None\<close> when there is none), and all servers, filtered by the selector if given.
\<close>

definition inventory_client :: servers_client where
  "inventory_client =
     \<lparr>get_by_id = (\<lambda>i. case find (\<lambda>s. server_id s = i) inventory of
                           None \<Rightarrow> Inl (APIException ''not_found'' ''server not found'')
                         | Some s \<Rightarrow> Inr (Some s)),
      get_by_name = (\<lambda>n. Inr (find (\<lambda>s. server_name s = n) inventory)),
      get_all = (\<lambda>sel. case sel of
                          None \<Rightarrow> Inr inventory
                        | Some l \<Rightarrow> Inr (filter (\<lambda>s. has_label l (server_labels s)) inventory))\<rparr>"

text \<open>A client whose every call dies of a broken connection.\<close>

definition unreachable_client :: servers_client where
  "unreachable_client =
     \<lparr>get_by_id = (\<lambda>i. Inl (OtherException ''Connection refused'')),
      get_by_name = (\<lambda>n. Inl (OtherException ''Connection refused'')),
      get_all = (\<lambda>sel. Inl (OtherException ''Connection refused''))\<rparr>"

definition no_params :: module_params where
  "no_params = \<lparr>param_id = None, param_name = None, param_label_selector = None\<rparr>"

text \<open>An object whose attribute holds an absent entry between two servers.\<close>

definition prepared :: AnsibleHcloudServerInfo where
  "prepared = (init no_params inventory_client)
                \<lparr>hcloud_server_info := Some [Some bare_server, None, Some my_server]\<rparr>"

text \<open>Module objects as \<open>main\<close> builds them, one for each way of selecting.\<close>

definition by_id_42 :: AnsibleHcloudServerInfo where
  "by_id_42 = init (no_params\<lparr>param_id := Some 42\<rparr>) inventory_client"

definition by_name_my_server :: AnsibleHcloudServerInfo where
  "by_name_my_server = init (no_params\<lparr>param_name := Some ''my-server''\<rparr>) inventory_client"

definition by_name_missing :: AnsibleHcloudServerInfo where
  "by_name_missing = init (no_params\<lparr>param_name := Some ''gone''\<rparr>) inventory_client"


text \<open>All three selection parameters set at once.\<close>

definition all_three :: AnsibleHcloudServerInfo where
  "all_three =
     init \<lparr>param_id = Some 42, param_name = Some ''my-server'',
           param_label_selector = Some ''env''\<rparr> inventory_client"

text \<open>
  The list \<open>[bare, None, my-server]\<close> as Python objects, and the documented server
  without its datacenter.
\<close>

definition sdk_prepared :: "sdk_server option list" where
  "sdk_prepared = [Some (of_server bare_server), None, Some (of_server my_server)]"

definition no_datacenter_server :: sdk_server where
  "no_datacenter_server = (of_server my_server)\<lparr>sdk_server_datacenter := None\<rparr>"

text \<open>A server on one private network whose name cannot be fetched.\<close>

definition unloaded_network_server :: sdk_server where
  "unloaded_network_server =
     (of_server bare_server)
       \<lparr>sdk_server_private_net :=
          Some [\<lparr>sdk_net_network =
                   Some \<lparr>sdk_network_name = Inl (OtherException ''Connection refused'')\<rparr>,
                 sdk_net_ip = Some ''10.0.0.2''\<rparr>]\<rparr>"

section \<open>Result preparation\<close>

text \<open>
  The loop leaves \<open>tmp\<close> in front and appends the dictionary of every entry that is not
  \<open>None\<close>, in order.
\<close>

lemma prepare_loop_append:
  "prepare_loop tmp servers =
     tmp @ map (\<lambda>s. PDict (prepare_server s)) (List.map_filter id servers)"
  by (induction tmp servers rule: prepare_loop.induct) (simp_all add: List.map_filter_simps)

lemma prepare_result_records:
  assumes "hcloud_server_info self = Some servers"
  shows "prepare_result self =
           Inr (map (\<lambda>s. PDict (prepare_server s)) (List.map_filter id servers))"
  using assms by (simp add: prepare_result_def prepare_loop_append)

lemma list_all2_map_self:
  assumes "\<And>x. x \<in> set xs \<Longrightarrow> P x (f x)"
  shows "list_all2 P xs (map f xs)"
  using assms by (induction xs) simp_all

lemma prepare_server_strings:
  "map_of (prepare_server s) ''id'' = Some (PStr (to_native_int (server_id s)))"
  "map_of (prepare_server s) ''name'' = Some (PStr (to_native_str (server_name s)))"
  "map_of (prepare_server s) ''status'' = Some (PStr (to_native_str (server_status s)))"
  by (simp_all add: prepare_server_def Let_def)

lemma prepare_server_networks:
  "map_of (prepare_server s) ''private_networks'' =
     Some (PList (map (\<lambda>net. PStr (to_native_str (network_name (net_network net))))
                      (server_private_net s)))"
  "map_of (prepare_server s) ''private_networks_info'' =
     Some (PList (map (\<lambda>net. PDict [(''name'', PStr (to_native_str (network_name (net_network net)))),
                                     (''ip'', PStr (net_ip net))])
                      (server_private_net s)))"
  by (simp_all add: prepare_server_def Let_def)

section \<open>Result preparation on objects with absent attributes\<close>

lemma private_networks_complete:
  assumes "list_all net_complete nets"
  shows "\<exists>names. private_networks nets = Inr names"
  using assms
  by (induction nets)
     (auto simp: net_complete_def and_then_def attribute_of_def lazy_name_def
           split: option.splits sum.splits)

lemma private_networks_info_complete:
  assumes "list_all net_complete nets"
  shows "\<exists>infos. private_networks_info nets = Inr infos"
  using assms
  by (induction nets)
     (auto simp: net_complete_def and_then_def attribute_of_def lazy_name_def
           split: option.splits sum.splits)

lemma private_networks_needs:
  assumes "private_networks nets = Inr names"
  shows "list_all net_complete nets"
  using assms
  by (induction nets arbitrary: names)
     (auto simp: net_complete_def and_then_def attribute_of_def lazy_name_def
           split: option.splits sum.splits)

lemma prepare_sdk_server_complete:
  assumes "complete s"
  shows "\<exists>d. prepare_sdk_server s = Inr d \<and>
           map fst d =
             [''id'', ''name'', ''ipv4_address'', ''ipv6'', ''private_networks'',
              ''private_networks_info'', ''image'', ''server_type'', ''datacenter'',
              ''location'', ''placement_group'', ''rescue_enabled'', ''backup_window'',
              ''labels'', ''status'', ''delete_protection'', ''rebuild_protection''] \<and>
           (sdk_server_image s = None \<longrightarrow> map_of d ''image'' = Some PNone) \<and>
           (sdk_server_placement_group s = None \<longrightarrow>
              map_of d ''placement_group'' = Some PNone) \<and>
           (\<forall>pn. sdk_server_public_net s = Some pn \<and> sdk_ipv4 pn = None \<longrightarrow>
              map_of d ''ipv4_address'' = Some PNone) \<and>
           (\<forall>pn. sdk_server_public_net s = Some pn \<and> sdk_ipv6 pn = None \<longrightarrow>
              map_of d ''ipv6'' = Some PNone) \<and>
           (sdk_server_backup_window s = None \<longrightarrow> map_of d ''backup_window'' = Some PNone)"
proof -
  from assms obtain pn nets st dc loc kvs del reb where
    pn: "sdk_server_public_net s = Some pn"
    and nets: "sdk_server_private_net s = Some nets" "list_all net_complete nets"
    and st: "sdk_server_server_type s = Some st"
    and dc: "sdk_server_datacenter s = Some dc" "sdk_datacenter_location dc = Some loc"
    and pr: "sdk_server_protection s = Some kvs" "map_of kvs ''delete'' = Some del"
      "map_of kvs ''rebuild'' = Some reb"
    by (auto simp: complete_def split: option.splits)
  from nets(2) obtain names where names: "private_networks nets = Inr names"
    using private_networks_complete by blast
  from nets(2) obtain infos where infos: "private_networks_info nets = Inr infos"
    using private_networks_info_complete by blast
  show ?thesis
    by (simp add: prepare_sdk_server_def Let_def and_then_def attribute_of_def iterate_def
          subscript_def pn nets st dc pr names infos)
qed

lemma and_then_Inr: "and_then r f = Inr v \<longleftrightarrow> (\<exists>x. r = Inr x \<and> f x = Inr v)"
  by (cases r) (simp_all add: and_then_def)

lemma attribute_of_Inr: "attribute_of obj = Inr v \<longleftrightarrow> obj = Some v"
  by (cases obj) (simp_all add: attribute_of_def)

lemma iterate_Inr: "iterate xs = Inr l \<longleftrightarrow> xs = Some l"
  by (cases xs) (simp_all add: iterate_def)

lemma subscript_Inr:
  "subscript d k = Inr v \<longleftrightarrow> (\<exists>kvs. d = Some kvs \<and> map_of kvs k = Some v)"
  by (cases d) (simp_all add: subscript_def split: option.split)

text \<open>Completeness is also necessary: on any other object the preparation raises.\<close>

lemma prepare_sdk_server_needs:
  assumes "prepare_sdk_server s = Inr d"
  shows "complete s"
proof -
  from assms obtain pn nets names st dc loc del reb where
    "sdk_server_public_net s = Some pn"
    and nets: "sdk_server_private_net s = Some nets" "private_networks nets = Inr names"
    and rest: "sdk_server_server_type s = Some st" "sdk_server_datacenter s = Some dc"
      "sdk_datacenter_location dc = Some loc"
      "\<exists>kvs. sdk_server_protection s = Some kvs \<and> map_of kvs ''delete'' = Some del"
      "\<exists>kvs. sdk_server_protection s = Some kvs \<and> map_of kvs ''rebuild'' = Some reb"
    unfolding prepare_sdk_server_def Let_def and_then_Inr attribute_of_Inr iterate_Inr
      subscript_Inr
    by blast
  moreover from nets(2) have "list_all net_complete nets"
    by (rule private_networks_needs)
  ultimately show ?thesis
    by (auto simp: complete_def)
qed

lemma prepare_sdk_loop_complete:
  assumes "list_all (\<lambda>entry. case entry of None \<Rightarrow> True | Some s \<Rightarrow> complete s) servers"
    and "\<And>s d. complete s \<Longrightarrow> prepare_sdk_server s = Inr d \<Longrightarrow> P s (PDict d)"
  shows "\<exists>out. prepare_sdk_loop tmp servers = Inr (tmp @ out) \<and>
           list_all2 P (List.map_filter id servers) out"
  using assms(1)
proof (induction tmp servers rule: prepare_sdk_loop.induct)
  case (1 tmp)
  then show ?case by (simp add: List.map_filter_simps)
next
  case (2 tmp rest)
  then show ?case by (simp add: List.map_filter_simps)
next
  case (3 tmp server rest)
  then have c: "complete server"
    and r: "list_all (\<lambda>entry. case entry of None \<Rightarrow> True | Some s \<Rightarrow> complete s) rest"
    by simp_all
  from c obtain d where d: "prepare_sdk_server server = Inr d"
    using prepare_sdk_server_complete by blast
  from "3.IH" r obtain out where
    l: "prepare_sdk_loop (tmp @ [PDict d]) rest = Inr ((tmp @ [PDict d]) @ out)"
    and p: "list_all2 P (List.map_filter id rest) out"
    by blast
  from c d have "P server (PDict d)" by (rule assms(2))
  with p have "list_all2 P (List.map_filter id (Some server # rest)) (PDict d # out)"
    by (simp add: List.map_filter_simps)
  moreover from d l have "prepare_sdk_loop tmp (Some server # rest) = Inr (tmp @ PDict d # out)"
    by (simp add: and_then_def)
  ultimately show ?case by blast
qed

text \<open>
  On the complete server objects of the first model the two preparations agree, record by
  record and over the whole list.
\<close>

lemma private_networks_of:
  "private_networks (map of_private_net nets) =
     Inr (map (\<lambda>net. PStr (to_native_str (network_name (net_network net)))) nets)"
  by (induction nets)
     (simp_all add: of_private_net_def and_then_def attribute_of_def lazy_name_def
        to_native_opt_def)

lemma private_networks_info_of:
  "private_networks_info (map of_private_net nets) =
     Inr (map (\<lambda>net. PDict [(''name'', PStr (to_native_str (network_name (net_network net)))),
                             (''ip'', PStr (net_ip net))]) nets)"
  by (induction nets)
     (simp_all add: of_private_net_def and_then_def attribute_of_def lazy_name_def
        to_native_opt_def passed_on_def)

lemma prepare_sdk_server_of_server:
  "prepare_sdk_server (of_server s) = Inr (prepare_server s)"
  by (simp add: prepare_sdk_server_def prepare_server_def of_server_def Let_def and_then_def
        attribute_of_def iterate_def subscript_def private_networks_of private_networks_info_of
        to_native_opt_def to_native_opt_int_def
      split: option.split)

lemma complete_of_server: "complete (of_server s)"
proof -
  obtain d where "prepare_sdk_server (of_server s) = Inr d"
    using prepare_sdk_server_of_server by blast
  then show ?thesis by (rule prepare_sdk_server_needs)
qed

lemma prepare_sdk_loop_of_server:
  "prepare_sdk_loop tmp (map (map_option of_server) servers) = Inr (prepare_loop tmp servers)"
  by (induction tmp servers rule: prepare_loop.induct)
     (simp_all add: and_then_def prepare_sdk_server_of_server)

text \<open>
  Claim C2, as amended. For server objects that are complete, field mapping is total:
  \<open>_prepare_result\<close> yields one record for every server object of the list, in order;
  the record has exactly the 17 listed keys, each once; and \<open>image\<close>,
  \<open>placement_group\<close>, \<open>ipv4_address\<close>, \<open>ipv6\<close> and \<open>backup_window\<close> are present
  with the value \<open>None\<close> when the server has no such nested object.
\<close>

theorem field_mapping_complete_servers:
  assumes "list_all (\<lambda>entry. case entry of None \<Rightarrow> True | Some s \<Rightarrow> complete s) servers"
  shows "\<exists>out. prepare_sdk_result (Some servers) = Inr out \<and>
           list_all2
             (\<lambda>s r. set (dict_keys r) = set record_keys \<and> distinct (dict_keys r) \<and>
                (sdk_server_image s = None \<longrightarrow> dict_get r ''image'' = Some PNone) \<and>
                (sdk_server_placement_group s = None \<longrightarrow>
                   dict_get r ''placement_group'' = Some PNone) \<and>
                (\<forall>pn. sdk_server_public_net s = Some pn \<and> sdk_ipv4 pn = None \<longrightarrow>
                   dict_get r ''ipv4_address'' = Some PNone) \<and>
                (\<forall>pn. sdk_server_public_net s = Some pn \<and> sdk_ipv6 pn = None \<longrightarrow>
                   dict_get r ''ipv6'' = Some PNone) \<and>
                (sdk_server_backup_window s = None \<longrightarrow>
                   dict_get r ''backup_window'' = Some PNone))
             (List.map_filter id servers) out"
proof -
  have keys: "set [''id'', ''name'', ''ipv4_address'', ''ipv6'', ''private_networks'',
              ''private_networks_info'', ''image'', ''server_type'', ''datacenter'',
              ''location'', ''placement_group'', ''rescue_enabled'', ''backup_window'',
              ''labels'', ''status'', ''delete_protection'', ''rebuild_protection'']
            = set record_keys"
    unfolding record_keys_def by (simp add: insert_commute)
  have one: "set (dict_keys (PDict d)) = set record_keys \<and> distinct (dict_keys (PDict d)) \<and>
                (sdk_server_image s = None \<longrightarrow> dict_get (PDict d) ''image'' = Some PNone) \<and>
                (sdk_server_placement_group s = None \<longrightarrow>
                   dict_get (PDict d) ''placement_group'' = Some PNone) \<and>
                (\<forall>pn. sdk_server_public_net s = Some pn \<and> sdk_ipv4 pn = None \<longrightarrow>
                   dict_get (PDict d) ''ipv4_address'' = Some PNone) \<and>
                (\<forall>pn. sdk_server_public_net s = Some pn \<and> sdk_ipv6 pn = None \<longrightarrow>
                   dict_get (PDict d) ''ipv6'' = Some PNone) \<and>
                (sdk_server_backup_window s = None \<longrightarrow>
                   dict_get (PDict d) ''backup_window'' = Some PNone)"
    if "complete s" and "prepare_sdk_server s = Inr d" for s d
  proof -
    from prepare_sdk_server_complete [OF that(1)] that(2)
    have m: "map fst d =
             [''id'', ''name'', ''ipv4_address'', ''ipv6'', ''private_networks'',
              ''private_networks_info'', ''image'', ''server_type'', ''datacenter'',
              ''location'', ''placement_group'', ''rescue_enabled'', ''backup_window'',
              ''labels'', ''status'', ''delete_protection'', ''rebuild_protection'']"
      and rest: "(sdk_server_image s = None \<longrightarrow> map_of d ''image'' = Some PNone) \<and>
           (sdk_server_placement_group s = None \<longrightarrow>
              map_of d ''placement_group'' = Some PNone) \<and>
           (\<forall>pn. sdk_server_public_net s = Some pn \<and> sdk_ipv4 pn = None \<longrightarrow>
              map_of d ''ipv4_address'' = Some PNone) \<and>
           (\<forall>pn. sdk_server_public_net s = Some pn \<and> sdk_ipv6 pn = None \<longrightarrow>
              map_of d ''ipv6'' = Some PNone) \<and>
           (sdk_server_backup_window s = None \<longrightarrow> map_of d ''backup_window'' = Some PNone)"
      by auto
    have "set (map fst d) = set record_keys" unfolding m by (rule keys)
    moreover have "distinct (map fst d)" unfolding m by simp
    ultimately show ?thesis using rest by simp
  qed
  have "\<exists>out. prepare_sdk_loop [] servers = Inr ([] @ out) \<and>
           list_all2
             (\<lambda>s r. set (dict_keys r) = set record_keys \<and> distinct (dict_keys r) \<and>
                (sdk_server_image s = None \<longrightarrow> dict_get r ''image'' = Some PNone) \<and>
                (sdk_server_placement_group s = None \<longrightarrow>
                   dict_get r ''placement_group'' = Some PNone) \<and>
                (\<forall>pn. sdk_server_public_net s = Some pn \<and> sdk_ipv4 pn = None \<longrightarrow>
                   dict_get r ''ipv4_address'' = Some PNone) \<and>
                (\<forall>pn. sdk_server_public_net s = Some pn \<and> sdk_ipv6 pn = None \<longrightarrow>
                   dict_get r ''ipv6'' = Some PNone) \<and>
                (sdk_server_backup_window s = None \<longrightarrow>
                   dict_get r ''backup_window'' = Some PNone))
             (List.map_filter id servers) out"
    by (rule prepare_sdk_loop_complete [OF assms]) (rule one)
  then show ?thesis by (simp add: prepare_sdk_result_def iterate_def and_then_def)
qed

theorem field_mapping_complete_servers_witness:
  "list_all (\<lambda>entry. case entry of None \<Rightarrow> True | Some s \<Rightarrow> complete s) sdk_prepared \<and>
   (\<exists>r1 r2. prepare_sdk_result (Some sdk_prepared) = Inr [r1, r2] \<and>
      set (dict_keys r1) = set record_keys \<and> set (dict_keys r2) = set record_keys \<and>
      dict_get r1 ''image'' = Some PNone \<and> dict_get r1 ''placement_group'' = Some PNone \<and>
      dict_get r1 ''ipv4_address'' = Some PNone \<and> dict_get r1 ''ipv6'' = Some PNone \<and>
      dict_get r1 ''backup_window'' = Some PNone)"
proof -
  have h: "list_all (\<lambda>entry. case entry of None \<Rightarrow> True | Some s \<Rightarrow> complete s) sdk_prepared"
    by (simp add: sdk_prepared_def complete_of_server)
  have absent: "sdk_server_image (of_server bare_server) = None"
    "sdk_server_placement_group (of_server bare_server) = None"
    "sdk_server_public_net (of_server bare_server) = Some \<lparr>sdk_ipv4 = None, sdk_ipv6 = None\<rparr>"
    "sdk_server_backup_window (of_server bare_server) = None"
    by (simp_all add: of_server_def bare_server_def)
  from field_mapping_complete_servers [OF h] show ?thesis
    using h absent by (auto simp: sdk_prepared_def List.map_filter_simps list_all2_Cons1)
qed

text \<open>
  Claim C2, as stated, fails on a server object without a datacenter: reading
  \<open>server.datacenter.name\<close> raises \<open>AttributeError\<close>, and there is no record, so no
  \<open>datacenter\<close> field that is \<open>None\<close>. It fails as well on a server whose private
  network cannot be fetched when its name is read: the exception of the API leaves
  \<open>_prepare_result\<close>, and there is no record either.
\<close>

theorem field_mapping_absent_datacenter:
  "sdk_server_datacenter no_datacenter_server = None \<and>
   prepare_sdk_server no_datacenter_server = Inl (PyError AttributeError) \<and>
   prepare_sdk_result (Some [Some no_datacenter_server]) = Inl (PyError AttributeError) \<and>
   prepare_sdk_result (Some [Some unloaded_network_server]) =
     Inl (ApiError (OtherException ''Connection refused''))"
  by (simp add: no_datacenter_server_def unloaded_network_server_def prepare_sdk_result_def
        iterate_def and_then_def prepare_sdk_server_def Let_def attribute_of_def of_server_def
        private_networks_of private_networks_info_of lazy_name_def)

section \<open>Choosing and running the lookup\<close>

lemma get_servers_by_id:
  assumes "param_id (params self) = Some i" and "get_by_id (client self) i = Inr found"
  shows "get_servers self =
           (Inr (), (record_call (GetById i) self)\<lparr>hcloud_server_info := Some [found]\<rparr>)"
  using assms by (simp add: get_servers_def)

lemma get_servers_by_name:
  assumes "param_id (params self) = None" and "param_name (params self) = Some n"
    and "get_by_name (client self) n = Inr found"
  shows "get_servers self =
           (Inr (), (record_call (GetByName n) self)\<lparr>hcloud_server_info := Some [found]\<rparr>)"
  using assms by (simp add: get_servers_def)



lemma get_servers_respond:
  "get_servers self =
     (case respond (client self) (lookup_by_precedence (params self)) of
        Inl e \<Rightarrow> (Inl (handle_exception e), record_call (lookup_by_precedence (params self)) self)
      | Inr found \<Rightarrow>
          (Inr (), (record_call (lookup_by_precedence (params self)) self)
                     \<lparr>hcloud_server_info := Some found\<rparr>))"
  by (simp add: get_servers_def lookup_by_precedence_def split: option.split sum.split)

text \<open>
  Claim C1. Whatever the three selection parameters are, \<open>get_servers\<close> applies exactly
  one lookup of the client, the one the precedence id, then name, then label selector,
  then none selects (by id, by name, the filtered listing, the plain listing), and does what
  that lookup's answer says: it stores the answer in \<open>hcloud_server_info\<close> or hands the
  exception to the handler. The log of calls grows by that one call.
\<close>

theorem lookup_precedence:
  "get_servers self =
     (case respond (client self) (lookup_by_precedence (params self)) of
        Inl e \<Rightarrow>
          (Inl (handle_exception e),
           self\<lparr>api_calls := api_calls self @ [lookup_by_precedence (params self)]\<rparr>)
      | Inr found \<Rightarrow>
          (Inr (),
           self\<lparr>hcloud_server_info := Some found,
                api_calls := api_calls self @ [lookup_by_precedence (params self)]\<rparr>)) \<and>
   api_calls (snd (get_servers self)) = api_calls self @ [lookup_by_precedence (params self)]"
proof -
  have "api_calls (snd (get_servers self)) =
          api_calls self @ [lookup_by_precedence (params self)]"
    by (simp add: get_servers_respond record_call_def split: sum.split)
  moreover have "get_servers self =
     (case respond (client self) (lookup_by_precedence (params self)) of
        Inl e \<Rightarrow>
          (Inl (handle_exception e),
           self\<lparr>api_calls := api_calls self @ [lookup_by_precedence (params self)]\<rparr>)
      | Inr found \<Rightarrow>
          (Inr (),
           self\<lparr>hcloud_server_info := Some found,
                api_calls := api_calls self @ [lookup_by_precedence (params self)]\<rparr>))"
    by (simp add: get_servers_respond record_call_def split: sum.split)
  ultimately show ?thesis by simp
qed

theorem lookup_precedence_witness:
  "lookup_by_precedence (params all_three) = GetById 42 \<and>
   respond (client all_three) (GetById 42) = Inr [Some bare_server] \<and>
   get_servers all_three =
     (Inr (), all_three\<lparr>hcloud_server_info := Some [Some bare_server],
                         api_calls := [GetById 42]\<rparr>)"
proof -
  have p: "lookup_by_precedence (params all_three) = GetById 42"
    by (simp add: all_three_def init_def lookup_by_precedence_def)
  have r: "respond (client all_three) (GetById 42) = Inr [Some bare_server]"
    by (simp add: all_three_def init_def inventory_client_def inventory_def my_server_def
          bare_server_def)
  have a: "api_calls all_three = []"
    by (simp add: all_three_def init_def)
  from lookup_precedence [of all_three] p r a show ?thesis by simp
qed

section \<open>Exceptions of the API call\<close>

text \<open>
  An \<open>APIException\<close> is reported: the module fails with its message, after the one call,
  and the attribute keeps its value, so nothing partial is stored.
\<close>

lemma api_exception_reported:
  assumes "respond (client self) (lookup_by_precedence (params self)) =
             Inl (APIException code msg)"
  shows "fst (get_servers self) = Inl (FailJson msg)"
    and "hcloud_server_info (snd (get_servers self)) = hcloud_server_info self"
    and "api_calls (snd (get_servers self)) =
           api_calls self @ [lookup_by_precedence (params self)]"
    and "snd (main module_name (params self) (client self)) = Failed (FailJson msg)"
proof -
  show "fst (get_servers self) = Inl (FailJson msg)"
    and "hcloud_server_info (snd (get_servers self)) = hcloud_server_info self"
    and "api_calls (snd (get_servers self)) =
           api_calls self @ [lookup_by_precedence (params self)]"
    using assms by (simp_all add: get_servers_respond handle_exception_def record_call_def)
  have "get_servers (init (params self) (client self)) =
          (Inl (FailJson msg),
           record_call (lookup_by_precedence (params self)) (init (params self) (client self)))"
    using assms by (simp add: get_servers_respond handle_exception_def init_def)
  then show "snd (main module_name (params self) (client self)) = Failed (FailJson msg)"
    by (simp add: main_def Let_def)
qed

text \<open>
  Claim C3, at an exception that is not an \<open>APIException\<close>. The listing raises a
  connection error; the handler catches it and reads \<open>e.message\<close>, which the exception
  does not have. The run ends with an uncaught \<open>AttributeError\<close> in place of
  \<open>fail_json\<close> with the exception's message.
\<close>

theorem connection_error_escapes:
  "get_all unreachable_client None = Inl (OtherException ''Connection refused'') \<and>
   get_servers (init no_params unreachable_client) =
     (Inl (Uncaught AttributeError),
      (init no_params unreachable_client)\<lparr>api_calls := [GetAll None]\<rparr>) \<and>
   main ''hcloud_server_info'' no_params unreachable_client =
     ([], Failed (Uncaught AttributeError))"
  by (simp add: main_def Let_def get_servers_def init_def no_params_def unreachable_client_def
        handle_exception_def record_call_def)

section \<open>The records of a run\<close>

text \<open>
  Claim C4. With only \<open>id\<close> set, and a client whose lookup by id returns no server of
  another id, a run that does not fail has made the one call by id and its output holds at
  most one record, whose \<open>id\<close> field is the string of the requested id.
\<close>

theorem only_id_at_most_one:
  assumes "params self = \<lparr>param_id = Some i, param_name = None, param_label_selector = None\<rparr>"
    and "\<forall>s. get_by_id (client self) i = Inr (Some s) \<longrightarrow> server_id s = i"
    and "get_servers self = (Inr (), self')"
  shows "api_calls self' = api_calls self @ [GetById i] \<and>
         (\<exists>out. prepare_result self' = Inr out \<and> length out \<le> 1 \<and>
            (\<forall>r \<in> set out. dict_get r ''id'' = Some (PStr (to_native_int i))))"
proof -
  from assms(1) have pid: "param_id (params self) = Some i" by simp
  from assms(3) pid obtain found where
    f: "get_by_id (client self) i = Inr found"
    and s: "self' = (record_call (GetById i) self)\<lparr>hcloud_server_info := Some [found]\<rparr>"
    by (auto simp: get_servers_def split: sum.splits)
  from s have calls: "api_calls self' = api_calls self @ [GetById i]"
    by (simp add: record_call_def)
  show ?thesis
  proof (cases found)
    case None
    with s have "prepare_result self' = Inr []" by (simp add: prepare_result_def)
    with calls show ?thesis by simp
  next
    case (Some srv)
    with f assms(2) have "server_id srv = i" by simp
    moreover from s Some have "prepare_result self' = Inr [PDict (prepare_server srv)]"
      by (simp add: prepare_result_def)
    ultimately show ?thesis using calls by (simp add: prepare_server_strings)
  qed
qed

theorem only_id_at_most_one_witness:
  "params by_id_42 = \<lparr>param_id = Some 42, param_name = None, param_label_selector = None\<rparr> \<and>
   get_by_id (client by_id_42) 42 = Inr (Some bare_server) \<and> server_id bare_server = 42 \<and>
   fst (get_servers by_id_42) = Inr () \<and>
   (\<exists>r. prepare_result (snd (get_servers by_id_42)) = Inr [r] \<and>
        dict_get r ''id'' = Some (PStr ''42''))"
proof -
  have p: "params by_id_42 =
      \<lparr>param_id = Some 42, param_name = None, param_label_selector = None\<rparr>"
    by (simp add: by_id_42_def init_def no_params_def)
  have g: "get_by_id (client by_id_42) 42 = Inr (Some bare_server)"
    by (simp add: by_id_42_def init_def inventory_client_def inventory_def my_server_def
          bare_server_def)
  have c: "\<forall>s. get_by_id (client by_id_42) 42 = Inr (Some s) \<longrightarrow> server_id s = 42"
    by (simp add: g bare_server_def)
  have r: "get_servers by_id_42 =
      (Inr (), (record_call (GetById 42) by_id_42)\<lparr>hcloud_server_info := Some [Some bare_server]\<rparr>)"
    using p g by (simp add: get_servers_by_id)
  have out: "prepare_result (snd (get_servers by_id_42)) = Inr [PDict (prepare_server bare_server)]"
    by (simp add: r prepare_result_def)
  have d: "to_native_int 42 = ''42''"
    by (simp add: to_native_int_def decimal.simps)
  from only_id_at_most_one [OF p c r] p g r out d show ?thesis
    by (auto simp: bare_server_def)
qed

text \<open>
  Claim C5. With only \<open>name\<close> set, and a client whose lookup by name returns no server
  of another name, a run that does not fail has made the one call by name and its output
  holds at most one record, whose \<open>name\<close> field is the requested name.
\<close>

theorem only_name_at_most_one:
  assumes "params self = \<lparr>param_id = None, param_name = Some n, param_label_selector = None\<rparr>"
    and "\<forall>s. get_by_name (client self) n = Inr (Some s) \<longrightarrow> server_name s = n"
    and "get_servers self = (Inr (), self')"
  shows "api_calls self' = api_calls self @ [GetByName n] \<and>
         (\<exists>out. prepare_result self' = Inr out \<and> length out \<le> 1 \<and>
            (\<forall>r \<in> set out. dict_get r ''name'' = Some (PStr (to_native_str n))))"
proof -
  from assms(1) have pid: "param_id (params self) = None" "param_name (params self) = Some n"
    by simp_all
  from assms(3) pid obtain found where
    f: "get_by_name (client self) n = Inr found"
    and s: "self' = (record_call (GetByName n) self)\<lparr>hcloud_server_info := Some [found]\<rparr>"
    by (auto simp: get_servers_def split: sum.splits)
  from s have calls: "api_calls self' = api_calls self @ [GetByName n]"
    by (simp add: record_call_def)
  show ?thesis
  proof (cases found)
    case None
    with s have "prepare_result self' = Inr []" by (simp add: prepare_result_def)
    with calls show ?thesis by simp
  next
    case (Some srv)
    with f assms(2) have "server_name srv = n" by simp
    moreover from s Some have "prepare_result self' = Inr [PDict (prepare_server srv)]"
      by (simp add: prepare_result_def)
    ultimately show ?thesis using calls by (simp add: prepare_server_strings)
  qed
qed

theorem only_name_at_most_one_witness:
  "params by_name_my_server =
     \<lparr>param_id = None, param_name = Some ''my-server'', param_label_selector = None\<rparr> \<and>
   get_by_name (client by_name_my_server) ''my-server'' = Inr (Some my_server) \<and>
   server_name my_server = ''my-server'' \<and>
   fst (get_servers by_name_my_server) = Inr () \<and>
   (\<exists>r. prepare_result (snd (get_servers by_name_my_server)) = Inr [r] \<and>
        dict_get r ''name'' = Some (PStr ''my-server''))"
proof -
  have p: "params by_name_my_server =
      \<lparr>param_id = None, param_name = Some ''my-server'', param_label_selector = None\<rparr>"
    by (simp add: by_name_my_server_def init_def no_params_def)
  have g: "get_by_name (client by_name_my_server) ''my-server'' = Inr (Some my_server)"
    by (simp add: by_name_my_server_def init_def inventory_client_def inventory_def
          my_server_def)
  have c: "\<forall>s. get_by_name (client by_name_my_server) ''my-server'' = Inr (Some s) \<longrightarrow>
        server_name s = ''my-server''"
    by (simp add: g my_server_def)
  have r: "get_servers by_name_my_server =
      (Inr (), (record_call (GetByName ''my-server'') by_name_my_server)
                 \<lparr>hcloud_server_info := Some [Some my_server]\<rparr>)"
    using p g by (simp add: get_servers_by_name)
  have out: "prepare_result (snd (get_servers by_name_my_server)) =
      Inr [PDict (prepare_server my_server)]"
    by (simp add: r prepare_result_def)
  from only_name_at_most_one [OF p c r] p g r out show ?thesis
    by (auto simp: to_native_str_def my_server_def)
qed



text \<open>
  Claim C8. The output of \<open>_prepare_result\<close> never contains \<open>None\<close>; and when the
  lookup by id or by name returns \<open>None\<close>, the run goes on and the output is the empty
  list.
\<close>

theorem no_null_entry:
  "(prepare_result obj = Inr out \<longrightarrow> PNone \<notin> set out) \<and>
   ((param_id (params self) = Some i \<and> get_by_id (client self) i = Inr None) \<or>
    (param_id (params self) = None \<and> param_name (params self) = Some n \<and>
     get_by_name (client self) n = Inr None) \<longrightarrow>
      fst (get_servers self) = Inr () \<and> prepare_result (snd (get_servers self)) = Inr [])"
proof (intro conjI impI)
  assume "prepare_result obj = Inr out"
  then obtain servers where
    "out = map (\<lambda>s. PDict (prepare_server s)) (List.map_filter id servers)"
    by (auto simp: prepare_result_def prepare_loop_append split: option.splits)
  then show "PNone \<notin> set out" by auto
next
  assume a: "(param_id (params self) = Some i \<and> get_by_id (client self) i = Inr None) \<or>
    (param_id (params self) = None \<and> param_name (params self) = Some n \<and>
     get_by_name (client self) n = Inr None)"
  then have "get_servers self =
       (Inr (), (record_call (GetById i) self)\<lparr>hcloud_server_info := Some [None]\<rparr>) \<or>
     get_servers self =
       (Inr (), (record_call (GetByName n) self)\<lparr>hcloud_server_info := Some [None]\<rparr>)"
    by (auto simp: get_servers_by_id get_servers_by_name)
  then show "fst (get_servers self) = Inr ()"
    and "prepare_result (snd (get_servers self)) = Inr []"
    by (auto simp: prepare_result_def)
qed

theorem no_null_entry_witness:
  "prepare_result prepared =
     Inr [PDict (prepare_server bare_server), PDict (prepare_server my_server)] \<and>
   PNone \<notin> set [PDict (prepare_server bare_server), PDict (prepare_server my_server)] \<and>
   param_id (params by_name_missing) = None \<and>
   param_name (params by_name_missing) = Some ''gone'' \<and>
   get_by_name (client by_name_missing) ''gone'' = Inr None \<and>
   fst (get_servers by_name_missing) = Inr () \<and>
   prepare_result (snd (get_servers by_name_missing)) = Inr []"
proof -
  have p: "prepare_result prepared =
     Inr [PDict (prepare_server bare_server), PDict (prepare_server my_server)]"
    by (simp add: prepared_def prepare_result_def)
  have q: "param_id (params by_name_missing) = None \<and>
    param_name (params by_name_missing) = Some ''gone'' \<and>
    get_by_name (client by_name_missing) ''gone'' = Inr None"
    by (simp add: by_name_missing_def init_def no_params_def inventory_client_def inventory_def
          my_server_def bare_server_def)
  from no_null_entry [of prepared _ by_name_missing 0 "''gone''"] p q show ?thesis
    by simp
qed

text \<open>
  Claim C9. In every record, \<open>private_networks\<close> and \<open>private_networks_info\<close> are
  lists as long as the server's list of private networks, and at each position the first
  holds the network's name and the second a dictionary whose \<open>name\<close> is that same
  element (and whose \<open>ip\<close> is the attachment's address).
\<close>

theorem private_networks_aligned:
  assumes "hcloud_server_info self = Some servers"
  shows "\<exists>out. prepare_result self = Inr out \<and>
           list_all2
             (\<lambda>s r. \<exists>names infos.
                dict_get r ''private_networks'' = Some (PList names) \<and>
                dict_get r ''private_networks_info'' = Some (PList infos) \<and>
                length names = length (server_private_net s) \<and>
                length infos = length (server_private_net s) \<and>
                (\<forall>i < length (server_private_net s).
                   names ! i =
                     PStr (to_native_str (network_name (net_network (server_private_net s ! i)))) \<and>
                   dict_get (infos ! i) ''name'' = Some (names ! i) \<and>
                   dict_get (infos ! i) ''ip'' = Some (PStr (net_ip (server_private_net s ! i)))))
             (List.map_filter id servers) out"
proof -
  let ?out = "map (\<lambda>s. PDict (prepare_server s)) (List.map_filter id servers)"
  have "prepare_result self = Inr ?out"
    using assms by (rule prepare_result_records)
  moreover have "list_all2
             (\<lambda>s r. \<exists>names infos.
                dict_get r ''private_networks'' = Some (PList names) \<and>
                dict_get r ''private_networks_info'' = Some (PList infos) \<and>
                length names = length (server_private_net s) \<and>
                length infos = length (server_private_net s) \<and>
                (\<forall>i < length (server_private_net s).
                   names ! i =
                     PStr (to_native_str (network_name (net_network (server_private_net s ! i)))) \<and>
                   dict_get (infos ! i) ''name'' = Some (names ! i) \<and>
                   dict_get (infos ! i) ''ip'' = Some (PStr (net_ip (server_private_net s ! i)))))
             (List.map_filter id servers) ?out"
    by (rule list_all2_map_self) (simp add: prepare_server_networks)
  ultimately show ?thesis by blast
qed

theorem private_networks_aligned_witness:
  "hcloud_server_info prepared = Some [Some bare_server, None, Some my_server] \<and>
   (\<exists>r1 r2 infos. prepare_result prepared = Inr [r1, r2] \<and>
      dict_get r2 ''private_networks'' = Some (PList [PStr ''my-network'', PStr ''another-network'']) \<and>
      dict_get r2 ''private_networks_info'' = Some (PList infos) \<and> length infos = 2 \<and>
      dict_get (infos ! 0) ''name'' = Some (PStr ''my-network'') \<and>
      dict_get (infos ! 1) ''name'' = Some (PStr ''another-network''))"
proof -
  have h: "hcloud_server_info prepared = Some [Some bare_server, None, Some my_server]"
    by (simp add: prepared_def)
  have nets: "server_private_net my_server =
        [\<lparr>net_network = \<lparr>network_name = ''my-network''\<rparr>, net_ip = ''192.168.1.1''\<rparr>,
         \<lparr>net_network = \<lparr>network_name = ''another-network''\<rparr>, net_ip = ''10.185.50.40''\<rparr>]"
    by (simp add: my_server_def)
  from private_networks_aligned [OF h] obtain r1 r2 names infos where
    out: "prepare_result prepared = Inr [r1, r2]"
    and n: "dict_get r2 ''private_networks'' = Some (PList names)"
    and i: "dict_get r2 ''private_networks_info'' = Some (PList infos)"
    and ln: "length names = 2" and li: "length infos = 2"
    and el: "\<forall>i<2. names ! i =
                     PStr (to_native_str (network_name (net_network (server_private_net my_server ! i)))) \<and>
                   dict_get (infos ! i) ''name'' = Some (names ! i)"
    by (auto simp: List.map_filter_simps list_all2_Cons1 nets)
  from el have e0: "names ! 0 = PStr ''my-network''" "dict_get (infos ! 0) ''name'' = Some (names ! 0)"
    by (simp_all add: nets to_native_str_def)
  from el have e1: "names ! 1 = PStr ''another-network''" "dict_get (infos ! 1) ''name'' = Some (names ! 1)"
    by (simp_all add: nets to_native_str_def)
  from ln e0 e1 have "names = [PStr ''my-network'', PStr ''another-network'']"
    by (cases names; cases "tl names"; cases "tl (tl names)") auto
  with h out n i li e0 e1 show ?thesis by auto
qed

text \<open>
  Claim C10. In every record, \<open>id\<close> is the string that \<open>to_native\<close> makes of the
  server's numeric id, not the integer, and \<open>name\<close> and \<open>status\<close> are the
  \<open>to_native\<close> strings of the server's name and status.
\<close>

theorem id_name_status_strings:
  assumes "hcloud_server_info self = Some servers"
  shows "\<exists>out. prepare_result self = Inr out \<and>
           list_all2
             (\<lambda>s r. dict_get r ''id'' = Some (PStr (to_native_int (server_id s))) \<and>
                dict_get r ''id'' \<noteq> Some (PInt (server_id s)) \<and>
                dict_get r ''name'' = Some (PStr (to_native_str (server_name s))) \<and>
                dict_get r ''status'' = Some (PStr (to_native_str (server_status s))))
             (List.map_filter id servers) out"
proof -
  let ?out = "map (\<lambda>s. PDict (prepare_server s)) (List.map_filter id servers)"
  have "prepare_result self = Inr ?out"
    using assms by (rule prepare_result_records)
  moreover have "list_all2
             (\<lambda>s r. dict_get r ''id'' = Some (PStr (to_native_int (server_id s))) \<and>
                dict_get r ''id'' \<noteq> Some (PInt (server_id s)) \<and>
                dict_get r ''name'' = Some (PStr (to_native_str (server_name s))) \<and>
                dict_get r ''status'' = Some (PStr (to_native_str (server_status s))))
             (List.map_filter id servers) ?out"
    by (rule list_all2_map_self) (simp add: prepare_server_strings)
  ultimately show ?thesis by blast
qed

theorem id_name_status_strings_witness:
  "hcloud_server_info prepared = Some [Some bare_server, None, Some my_server] \<and>
   (\<exists>r1 r2. prepare_result prepared = Inr [r1, r2] \<and>
      dict_get r1 ''id'' = Some (PStr ''42'') \<and>
      dict_get r2 ''id'' = Some (PStr ''1937415'') \<and>
      dict_get r2 ''name'' = Some (PStr ''my-server'') \<and>
      dict_get r2 ''status'' = Some (PStr ''running''))"
proof -
  have h: "hcloud_server_info prepared = Some [Some bare_server, None, Some my_server]"
    by (simp add: prepared_def)
  have v: "to_native_int (server_id bare_server) = ''42''"
    "to_native_int (server_id my_server) = ''1937415''"
    "to_native_str (server_name my_server) = ''my-server''"
    "to_native_str (server_status my_server) = ''running''"
    by (simp_all add: bare_server_def my_server_def to_native_int_def to_native_str_def
          decimal.simps)
  from id_name_status_strings [OF h] show ?thesis
    using h v by (auto simp: List.map_filter_simps list_all2_Cons1)
qed

section \<open>The legacy name\<close>

lemma main_outcome:
  "main module_name p c =
     (if module_name = ''hcloud_server_facts'' then [facts_deprecation] else [],
      case get_servers (init p c) of
        (Inl f, _) \<Rightarrow> Failed f
      | (Inr _, hcloud) \<Rightarrow>
          (case prepare_result hcloud of
             Inl err \<Rightarrow> Failed (Uncaught err)
           | Inr records \<Rightarrow>
               if module_name = ''hcloud_server_facts''
               then ExitJson [(''ansible_facts'', PDict [(''hcloud_server_facts'', PList records)])]
               else ExitJson [(''hcloud_server_info'', PList records)]))"
  by (simp add: main_def Let_def get_result_def split: prod.split sum.split)

text \<open>
  Claim C7. Invoked as \<open>hcloud_server_facts\<close>, the module emits the deprecation notice
  (under any other name it emits none), and where the run under the current name exits
  with the records under \<open>hcloud_server_info\<close>, the legacy run exits with the same records
  under \<open>hcloud_server_facts\<close> inside \<open>ansible_facts\<close>; where one fails, the other
  fails alike.
\<close>

theorem legacy_alias:
  assumes "current \<noteq> ''hcloud_server_facts''"
  shows "fst (main ''hcloud_server_facts'' p c) = [facts_deprecation] \<and>
         fst (main current p c) = [] \<and>
         (case snd (main current p c) of
            ExitJson kwargs \<Rightarrow>
              (\<exists>records. kwargs = [(''hcloud_server_info'', PList records)] \<and>
                 snd (main ''hcloud_server_facts'' p c) =
                   ExitJson [(''ansible_facts'',
                              PDict [(''hcloud_server_facts'', PList records)])])
          | Failed f \<Rightarrow> snd (main ''hcloud_server_facts'' p c) = Failed f)"
  using assms by (simp add: main_outcome split: prod.split sum.split)

theorem legacy_alias_witness:
  "''hcloud_server_info'' \<noteq> ''hcloud_server_facts'' \<and>
   main ''hcloud_server_info'' (no_params\<lparr>param_id := Some 42\<rparr>) inventory_client =
     ([], ExitJson [(''hcloud_server_info'', PList [PDict (prepare_server bare_server)])]) \<and>
   main ''hcloud_server_facts'' (no_params\<lparr>param_id := Some 42\<rparr>) inventory_client =
     ([facts_deprecation],
      ExitJson [(''ansible_facts'',
                 PDict [(''hcloud_server_facts'', PList [PDict (prepare_server bare_server)])])])"
proof -
  have n: "''hcloud_server_info'' \<noteq> ''hcloud_server_facts''" by simp
  have g: "get_by_id inventory_client 42 = Inr (Some bare_server)"
    by (simp add: inventory_client_def inventory_def my_server_def bare_server_def)
  have m: "main ''hcloud_server_info'' (no_params\<lparr>param_id := Some 42\<rparr>) inventory_client =
     ([], ExitJson [(''hcloud_server_info'', PList [PDict (prepare_server bare_server)])])"
    by (simp add: main_outcome get_servers_def init_def no_params_def g prepare_result_def
          record_call_def)
  from legacy_alias [OF n, of "no_params\<lparr>param_id := Some 42\<rparr>" inventory_client] m
  show ?thesis by (auto simp: prod_eq_iff)
qed

end
